theory Spec2Isabelle
  imports Main "HOL-Library.Word" "HOL-Library.AList" "HOL-Library.Char_ord" "HOL-Library.List_Lexorder"
begin

section \<open>The Gobackhomee SDK client (client/client.go)\<close>

subsection \<open>Data model\<close>

text \<open>
  \<^verbatim>\<open>time.Duration\<close> is a 64-bit integer counting nanoseconds;
  \<^verbatim>\<open>time.Second\<close> is 1000000000 of them.
\<close>

type_synonym Duration = "64 word"

definition Second :: Duration where
  "Second = 1000000000"

text \<open>The one field of \<^verbatim>\<open>http.Client\<close> that the package reads or writes.\<close>

record http_Client =
  Timeout :: Duration

text \<open>
  \<^verbatim>\<open>WalletAuth\<close>: the signing capability maps a message to a signature or
  to an error (\<open>Inl\<close>).
\<close>

record WalletAuth =
  WalletAddress :: string
  SignMessage :: "string \<Rightarrow> string + string"

text \<open>
  \<^verbatim>\<open>Client\<close>. The Go field \<^verbatim>\<open>walletAuth\<close> is a pointer: \<open>None\<close> is nil.
  \<^verbatim>\<open>httpClient\<close> is a pointer to a value that \<^verbatim>\<open>New\<close> allocates afresh for
  every Client, so it is held by value here.
\<close>

record Client =
  baseURL :: string
  httpClient :: http_Client
  apiKey :: string
  walletAuth :: "WalletAuth option"

text \<open>\<^verbatim>\<open>type Option func(*Client)\<close>: a mutation of the Client, here a function
  from the Client before to the Client after.\<close>

type_synonym Option = "Client \<Rightarrow> Client"

definition WithAPIKey :: "string \<Rightarrow> Option" where
  "WithAPIKey key = (\<lambda>c. c\<lparr>apiKey := key\<rparr>)"

definition WithWalletAuth :: "WalletAuth option \<Rightarrow> Option" where
  "WithWalletAuth auth = (\<lambda>c. c\<lparr>walletAuth := auth\<rparr>)"

definition WithTimeout :: "Duration \<Rightarrow> Option" where
  "WithTimeout d = (\<lambda>c. c\<lparr>httpClient := (httpClient c)\<lparr>Timeout := d\<rparr>\<rparr>)"

text \<open>
  \<^verbatim>\<open>New\<close>: the composite literal leaves \<^verbatim>\<open>apiKey\<close> and
  \<^verbatim>\<open>walletAuth\<close> at their zero values; the loop over \<^verbatim>\<open>opts\<close> runs from
  the first option to the last.
\<close>

definition New :: "string \<Rightarrow> Option list \<Rightarrow> Client" where
  "New url opts =
     fold (\<lambda>opt c. opt c) opts
       \<lparr>baseURL = url, httpClient = \<lparr>Timeout = 30 * Second\<rparr>, apiKey = [], walletAuth = None\<rparr>"

subsection \<open>Requests, responses, errors and the outside world\<close>

text \<open>
  An \<^verbatim>\<open>http.Request\<close> as \<^verbatim>\<open>doRequest\<close> prepares it. \<open>Header\<close> is the
  header map (one value per key: the code only ever calls \<^verbatim>\<open>Set\<close>), \<open>Body\<close>
  the body reader (\<open>None\<close> when nil).
\<close>

record 'ctx Request =
  Ctx :: 'ctx
  Method :: string
  URL :: string
  Header :: "(string \<times> string) list"
  Body :: "string option"

definition Header_Set :: "string \<Rightarrow> string \<Rightarrow> 'ctx Request \<Rightarrow> 'ctx Request" where
  "Header_Set k v req = req\<lparr>Header := AList.update k v (Header req)\<rparr>"

definition Header_Get :: "'ctx Request \<Rightarrow> string \<Rightarrow> string option" where
  "Header_Get req k = map_of (Header req) k"

record Response =
  StatusCode :: int
  RespBody :: string

text \<open>
  The errors the package returns, by where they arise. \<open>MarshalError\<close> and
  \<open>CreateRequestError\<close> are the two \<^verbatim>\<open>fmt.Errorf\<close> wrappers of
  \<^verbatim>\<open>doRequest\<close>; \<open>DoError\<close> is the error of \<^verbatim>\<open>httpClient.Do\<close> and
  \<open>DecodeError\<close> the error of \<^verbatim>\<open>Decoder.Decode\<close>, both passed on as they
  are. The package defines no other error.
\<close>

datatype error =
    MarshalError string
  | CreateRequestError string
  | DoError string
  | DecodeError string

text \<open>
  The library calls of \<^verbatim>\<open>doRequest\<close>, as parameters:
  \<^verbatim>\<open>json.Marshal\<close> (\<open>Inl\<close> its error), the check of
  \<^verbatim>\<open>http.NewRequestWithContext\<close> on context, method and URL (\<open>Some\<close> its
  error), and the transport \<^verbatim>\<open>httpClient.Do\<close> (\<open>Inl\<close> its error).
\<close>

record ('ctx, 'b) env =
  json_Marshal :: "'b \<Rightarrow> string + string"
  NewRequestWithContext_err :: "'ctx \<Rightarrow> string \<Rightarrow> string \<Rightarrow> string option"
  Do :: "http_Client \<Rightarrow> 'ctx Request \<Rightarrow> string + Response"

subsection \<open>The request dispatcher\<close>

text \<open>
  \<^verbatim>\<open>doRequest\<close>. The last argument and the second component of the result are
  the log of the requests handed to the transport so far: every call of
  \<^verbatim>\<open>httpClient.Do\<close> appends its request, and nothing else changes the log.
\<close>

definition doRequest ::
  "('ctx, 'b) env \<Rightarrow> Client \<Rightarrow> 'ctx \<Rightarrow> string \<Rightarrow> string \<Rightarrow> 'b option \<Rightarrow> 'ctx Request list
     \<Rightarrow> (error + Response) \<times> 'ctx Request list" where
  "doRequest E c ctx method path body log =
     (case (case body of
              None \<Rightarrow> Inr None
            | Some b \<Rightarrow> (case json_Marshal E b of
                          Inl err \<Rightarrow> Inl err
                        | Inr jsonBody \<Rightarrow> Inr (Some jsonBody))) of
        Inl err \<Rightarrow> (Inl (MarshalError err), log)
      | Inr bodyReader \<Rightarrow>
          (case NewRequestWithContext_err E ctx method (baseURL c @ path) of
             Some err \<Rightarrow> (Inl (CreateRequestError err), log)
           | None \<Rightarrow>
               let req = \<lparr>Ctx = ctx, Method = method, URL = baseURL c @ path,
                           Header = [], Body = bodyReader\<rparr>;
                   req = Header_Set ''Content-Type'' ''application/json'' req;
                   req = (if apiKey c \<noteq> [] then
                            Header_Set ''Authorization'' (''Bearer '' @ apiKey c) req
                          else req)
               in (case Do E (httpClient c) req of
                     Inl err \<Rightarrow> Inl (DoError err)
                   | Inr resp \<Rightarrow> Inr resp,
                   log @ [req])))"

subsection \<open>The service facades\<close>

text \<open>
  Each facade method calls \<^verbatim>\<open>doRequest\<close> once, returns its error as it is, and
  otherwise decodes the response body. The JSON decoder for the method's result type
  is the parameter \<open>Decode\<close> (\<open>Inl\<close> its error). A \<^verbatim>\<open>map[string]string\<close>
  body is the list of its entries.
\<close>

type_synonym StringMap = "(string \<times> string) list"

definition SignInWithEthereum ::
  "('ctx, StringMap) env \<Rightarrow> (string \<Rightarrow> string + 'identity) \<Rightarrow> Client \<Rightarrow> 'ctx \<Rightarrow> string \<Rightarrow> string
     \<Rightarrow> 'ctx Request list \<Rightarrow> (error + 'identity) \<times> 'ctx Request list" where
  "SignInWithEthereum E Decode c ctx message signature log =
     (case doRequest E c ctx ''POST'' ''/api/auth/siwe''
             (Some [(''message'', message), (''signature'', signature)]) log of
        (Inl err, log') \<Rightarrow> (Inl err, log')
      | (Inr resp, log') \<Rightarrow>
          (case Decode (RespBody resp) of
             Inl err \<Rightarrow> (Inl (DecodeError err), log')
           | Inr identity \<Rightarrow> (Inr identity, log')))"

definition Create ::
  "('ctx, StringMap) env \<Rightarrow> (string \<Rightarrow> string + 'project) \<Rightarrow> Client \<Rightarrow> 'ctx \<Rightarrow> string
     \<Rightarrow> 'ctx Request list \<Rightarrow> (error + 'project) \<times> 'ctx Request list" where
  "Create E Decode c ctx name log =
     (case doRequest E c ctx ''POST'' ''/api/projects'' (Some [(''name'', name)]) log of
        (Inl err, log') \<Rightarrow> (Inl err, log')
      | (Inr resp, log') \<Rightarrow>
          (case Decode (RespBody resp) of
             Inl err \<Rightarrow> (Inl (DecodeError err), log')
           | Inr project \<Rightarrow> (Inr project, log')))"

definition List ::
  "('ctx, StringMap) env \<Rightarrow> (string \<Rightarrow> string + 'projects) \<Rightarrow> Client \<Rightarrow> 'ctx
     \<Rightarrow> 'ctx Request list \<Rightarrow> (error + 'projects) \<times> 'ctx Request list" where
  "List E Decode c ctx log =
     (case doRequest E c ctx ''GET'' ''/api/projects'' None log of
        (Inl err, log') \<Rightarrow> (Inl err, log')
      | (Inr resp, log') \<Rightarrow>
          (case Decode (RespBody resp) of
             Inl err \<Rightarrow> (Inl (DecodeError err), log')
           | Inr projects \<Rightarrow> (Inr projects, log')))"

definition GenerateSchema ::
  "('ctx, StringMap) env \<Rightarrow> (string \<Rightarrow> string + string) \<Rightarrow> Client \<Rightarrow> 'ctx \<Rightarrow> string
     \<Rightarrow> 'ctx Request list \<Rightarrow> (error + string) \<times> 'ctx Request list" where
  "GenerateSchema E Decode c ctx description log =
     (case doRequest E c ctx ''POST'' ''/api/ai/schema'' (Some [(''description'', description)]) log of
        (Inl err, log') \<Rightarrow> (Inl err, log')
      | (Inr resp, log') \<Rightarrow>
          (case Decode (RespBody resp) of
             Inl err \<Rightarrow> (Inl (DecodeError err), log')
           | Inr schema \<Rightarrow> (Inr schema, log')))"

definition Embed ::
  "('ctx, StringMap) env \<Rightarrow> (string \<Rightarrow> string + 'embedding) \<Rightarrow> Client \<Rightarrow> 'ctx \<Rightarrow> string
     \<Rightarrow> 'ctx Request list \<Rightarrow> (error + 'embedding) \<times> 'ctx Request list" where
  "Embed E Decode c ctx text log =
     (case doRequest E c ctx ''POST'' ''/api/ai/embed'' (Some [(''text'', text)]) log of
        (Inl err, log') \<Rightarrow> (Inl err, log')
      | (Inr resp, log') \<Rightarrow>
          (case Decode (RespBody resp) of
             Inl err \<Rightarrow> (Inl (DecodeError err), log')
           | Inr embedding \<Rightarrow> (Inr embedding, log')))"

subsection \<open>Named parts of the dispatcher, for stating its properties\<close>

text \<open>Lines 90 to 97 of \<^verbatim>\<open>doRequest\<close>: the body reader, or the error of
  \<^verbatim>\<open>json.Marshal\<close>.\<close>

definition marshalBody :: "('ctx, 'b) env \<Rightarrow> 'b option \<Rightarrow> string + string option" where
  "marshalBody E body =
     (case body of
        None \<Rightarrow> Inr None
      | Some b \<Rightarrow> (case json_Marshal E b of
                    Inl err \<Rightarrow> Inl err
                  | Inr jsonBody \<Rightarrow> Inr (Some jsonBody)))"

text \<open>Lines 99 to 108: the request as it stands when it is handed to the transport.\<close>

definition prepared :: "Client \<Rightarrow> 'ctx \<Rightarrow> string \<Rightarrow> string \<Rightarrow> string option \<Rightarrow> 'ctx Request" where
  "prepared c ctx method path bodyReader =
     (let req = \<lparr>Ctx = ctx, Method = method, URL = baseURL c @ path,
                 Header = [], Body = bodyReader\<rparr>;
          req = Header_Set ''Content-Type'' ''application/json'' req
      in if apiKey c \<noteq> [] then Header_Set ''Authorization'' (''Bearer '' @ apiKey c) req
         else req)"

text \<open>Line 110 as the caller sees it: the transport's answer, its error tagged.\<close>

definition sent :: "('ctx, 'b) env \<Rightarrow> Client \<Rightarrow> 'ctx Request \<Rightarrow> error + Response" where
  "sent E c req = (case Do E (httpClient c) req of Inl err \<Rightarrow> Inl (DoError err) | Inr resp \<Rightarrow> Inr resp)"

subsection \<open>A transport double and concrete inputs\<close>

text \<open>
  A control byte in the sense of \<^verbatim>\<open>net/url\<close>: below the space, or DEL.
  \<^verbatim>\<open>url.Parse\<close>, and with it \<^verbatim>\<open>http.NewRequestWithContext\<close>, refuses a URL
  that holds one.
\<close>

definition isCTL :: "char \<Rightarrow> bool" where
  "isCTL ch = ((of_char ch :: nat) < 32 \<or> (of_char ch :: nat) = 127)"

definition quoted :: "string \<Rightarrow> string" where
  "quoted s = [CHR 0x22] @ s @ [CHR 0x22]"

text \<open>The JSON object of a string map whose keys and values need no escaping.\<close>

fun fields :: "StringMap \<Rightarrow> string" where
  "fields [] = []"
| "fields [(k, v)] = quoted k @ '':'' @ quoted v"
| "fields ((k, v) # kvs) = quoted k @ '':'' @ quoted v @ '','' @ fields kvs"

definition marshalMap :: "StringMap \<Rightarrow> string + string" where
  "marshalMap m = Inr (''{'' @ fields m @ ''}'')"

text \<open>
  The double: it marshals with the given function, refuses a URL with a control byte,
  and answers every request with the given reply.
\<close>

definition double :: "('b \<Rightarrow> string + string) \<Rightarrow> string + Response \<Rightarrow> (unit, 'b) env" where
  "double marshal reply =
     \<lparr>json_Marshal = marshal,
      NewRequestWithContext_err =
        (\<lambda>ctx method url. if list_ex isCTL url then Some ''net/url: invalid control character in URL''
                          else None),
      Do = (\<lambda>hc req. reply)\<rparr>"

text \<open>A value \<^verbatim>\<open>json.Marshal\<close> refuses (a channel), beside one it accepts.\<close>

datatype GoValue = MapValue StringMap | ChanValue

fun marshalValue :: "GoValue \<Rightarrow> string + string" where
  "marshalValue (MapValue m) = marshalMap m"
| "marshalValue ChanValue = Inl ''json: unsupported type: chan int''"

text \<open>A decoder that accepts a JSON object (whatever its fields) and gives it back.\<close>

definition decodeObject :: "string \<Rightarrow> string + string" where
  "decodeObject s =
     (case s of
        [] \<Rightarrow> Inl ''EOF''
      | ch # _ \<Rightarrow> if ch = CHR ''{'' then Inr s else Inl ''invalid character'')"

text \<open>The values of the \<^verbatim>\<open>Authorization\<close> header of the requests of a log.\<close>

definition Authorizations :: "'ctx Request list \<Rightarrow> string option list" where
  "Authorizations log = map (\<lambda>req. Header_Get req ''Authorization'') log"

text \<open>Two wallets: one whose signing capability signs, one whose capability fails.\<close>

definition signingWallet :: WalletAuth where
  "signingWallet = \<lparr>WalletAddress = ''0xabc'', SignMessage = (\<lambda>message. Inr (''signed:'' @ message))\<rparr>"

definition refusingWallet :: WalletAuth where
  "refusingWallet = \<lparr>WalletAddress = ''0xabc'', SignMessage = (\<lambda>message. Inl ''user rejected the request'')\<rparr>"

section \<open>The content-addressing model (section 4.4 of the specification)\<close>

text \<open>
  The repository holds no function that computes or verifies a deployment digest:
  \<^verbatim>\<open>Deployment.Hash\<close> of package \<^verbatim>\<open>types\<close> is a string field, documented as the
  content-addressed Merkle root. The definitions of this section follow the
  specification's algorithm. A digest is a byte string; an artifact is a relative path
  with its content bytes; an artifact set is the list of its artifacts in the order
  they are enumerated.
\<close>

type_synonym digest = string

type_synonym artifact = "string \<times> string"

datatype integrity_error = IntegrityMismatch

text \<open>Modelled from the spec: the canonical order of an artifact set (step 1 of the
  algorithm, absent from the sources): the artifacts sorted lexicographically by
  path.\<close>

definition canonical :: "artifact list \<Rightarrow> artifact list" where
  "canonical A = sort_key fst A"

text \<open>Modelled from the spec: the leaf digest of an artifact (step 2, absent from the
  sources): the hash of the path followed by the content bytes. The hash function
  \<open>H\<close> is the pinned protocol parameter, which the specification leaves open.\<close>

definition leafDigest :: "(string \<Rightarrow> digest) \<Rightarrow> artifact \<Rightarrow> digest" where
  "leafDigest H a = H (fst a @ snd a)"

text \<open>Modelled from the spec: one level of the binary tree (step 3, absent from the
  sources): adjacent nodes are hashed in pairs, and an odd node at the end is paired
  with a copy of itself.\<close>

fun pairUp :: "(string \<Rightarrow> digest) \<Rightarrow> digest list \<Rightarrow> digest list" where
  "pairUp H (l # r # rest) = H (l @ r) # pairUp H rest"
| "pairUp H [l] = [H (l @ l)]"
| "pairUp H [] = []"

lemma length_pairUp_le: "length (pairUp H level) \<le> length level"
  by (induction H level rule: pairUp.induct) auto

text \<open>Modelled from the spec: the root of the tree (step 3, absent from the sources):
  levels are paired up until one node remains; no node at all gives the reserved
  empty-root constant, a protocol parameter as well.\<close>

function (sequential) merkleRoot :: "(string \<Rightarrow> digest) \<Rightarrow> digest \<Rightarrow> digest list \<Rightarrow> digest" where
  "merkleRoot H emptyRoot [] = emptyRoot"
| "merkleRoot H emptyRoot [root] = root"
| "merkleRoot H emptyRoot level = merkleRoot H emptyRoot (pairUp H level)"
  by pat_completeness auto
termination
proof (relation "measure (\<lambda>(H, emptyRoot, level). length level)")
  show "wf (measure (\<lambda>(H, emptyRoot, level). length level))" by simp
next
  fix H :: "string \<Rightarrow> digest" and emptyRoot :: digest and l r :: digest and rest :: "digest list"
  have "length (pairUp H rest) \<le> length rest" by (rule length_pairUp_le)
  then show "((H, emptyRoot, pairUp H (l # r # rest)), (H, emptyRoot, l # r # rest))
      \<in> measure (\<lambda>(H, emptyRoot, level). length level)"
    by simp
qed

text \<open>Modelled from the spec: the digest of an artifact set (step 4, absent from the
  sources): the root over the leaf digests in canonical order.\<close>

definition digest :: "(string \<Rightarrow> digest) \<Rightarrow> digest \<Rightarrow> artifact list \<Rightarrow> digest" where
  "digest H emptyRoot A = merkleRoot H emptyRoot (map (leafDigest H) (canonical A))"

text \<open>Modelled from the spec: verification (absent from the sources): the root is
  recomputed from the artifact set and compared with the claimed digest for exact
  equality; any difference is the error \<open>IntegrityMismatch\<close>.\<close>

definition verify :: "(string \<Rightarrow> digest) \<Rightarrow> digest \<Rightarrow> digest \<Rightarrow> artifact list \<Rightarrow> integrity_error + unit" where
  "verify H emptyRoot claimed A =
     (if digest H emptyRoot A = claimed then Inr () else Inl IntegrityMismatch)"

text \<open>A stand-in for the hash function, to evaluate the model on concrete artifact
  sets; it is not a cryptographic hash.\<close>

definition standInHash :: "string \<Rightarrow> digest" where
  "standInHash bytes = ''#'' @ rev bytes"

section \<open>Properties of the dispatcher\<close>

lemma doRequest_parts:
  "doRequest E c ctx method path body log =
     (case marshalBody E body of
        Inl err \<Rightarrow> (Inl (MarshalError err), log)
      | Inr bodyReader \<Rightarrow>
          (case NewRequestWithContext_err E ctx method (baseURL c @ path) of
             Some err \<Rightarrow> (Inl (CreateRequestError err), log)
           | None \<Rightarrow> (sent E c (prepared c ctx method path bodyReader),
                      log @ [prepared c ctx method path bodyReader])))"
  by (simp add: doRequest_def marshalBody_def prepared_def sent_def Let_def
      split: option.splits sum.splits)

lemma fold_keeps_timeout:
  "set opts \<subseteq> range WithAPIKey \<union> range WithWalletAuth \<Longrightarrow>
   Timeout (httpClient (fold (\<lambda>opt c. opt c) opts c0)) = Timeout (httpClient c0)"
  by (induction opts arbitrary: c0) (auto simp: WithAPIKey_def WithWalletAuth_def)

lemma fold_keeps_apiKey:
  "set opts \<subseteq> range WithTimeout \<union> range WithWalletAuth \<Longrightarrow>
   apiKey (fold (\<lambda>opt c. opt c) opts c0) = apiKey c0"
  by (induction opts arbitrary: c0) (auto simp: WithTimeout_def WithWalletAuth_def)

lemma fold_keeps_walletAuth:
  "set opts \<subseteq> range WithTimeout \<union> range WithAPIKey \<Longrightarrow>
   walletAuth (fold (\<lambda>opt c. opt c) opts c0) = walletAuth c0"
  by (induction opts arbitrary: c0) (auto simp: WithTimeout_def WithAPIKey_def)

lemma thirty_seconds: "sint (30 * Second) = 30000000000"
  by (simp add: Second_def)

subsection \<open>Construction of the Client\<close>

text \<open>
  Claim C10. \<^verbatim>\<open>New\<close> gives a Client whose HTTP timeout is 30 seconds
  (30000000000 nanoseconds) when none of the options is a \<^verbatim>\<open>WithTimeout\<close>.
  The options are applied after the defaults and in argument order: with no option
  the Client is the defaults, and one more option at the end of the list is applied
  to the Client the shorter list gives. So a later option overrides an earlier one
  for the same field: the value of the last \<^verbatim>\<open>WithTimeout\<close>,
  \<^verbatim>\<open>WithAPIKey\<close> or \<^verbatim>\<open>WithWalletAuth\<close> is the field's value, whatever
  options precede it.
\<close>

theorem New_defaults_then_options_in_order:
  "(set opts \<subseteq> range WithAPIKey \<union> range WithWalletAuth \<longrightarrow>
      Timeout (httpClient (New url opts)) = 30 * Second \<and>
      sint (Timeout (httpClient (New url opts))) = 30000000000)
   \<and> New url [] = \<lparr>baseURL = url, httpClient = \<lparr>Timeout = 30 * Second\<rparr>, apiKey = [], walletAuth = None\<rparr>
   \<and> New url (opts @ [opt]) = opt (New url opts)
   \<and> (set post \<subseteq> range WithAPIKey \<union> range WithWalletAuth \<longrightarrow>
        Timeout (httpClient (New url (pre @ WithTimeout d # post))) = d)
   \<and> (set post \<subseteq> range WithTimeout \<union> range WithWalletAuth \<longrightarrow>
        apiKey (New url (pre @ WithAPIKey key # post)) = key)
   \<and> (set post \<subseteq> range WithTimeout \<union> range WithAPIKey \<longrightarrow>
        walletAuth (New url (pre @ WithWalletAuth auth # post)) = auth)"
proof -
  have a: "set opts \<subseteq> range WithAPIKey \<union> range WithWalletAuth \<longrightarrow>
      Timeout (httpClient (New url opts)) = 30 * Second \<and>
      sint (Timeout (httpClient (New url opts))) = 30000000000"
    using thirty_seconds by (simp add: New_def fold_keeps_timeout)
  have b: "New url [] = \<lparr>baseURL = url, httpClient = \<lparr>Timeout = 30 * Second\<rparr>, apiKey = [], walletAuth = None\<rparr>"
    by (simp add: New_def)
  have c: "New url (opts @ [opt]) = opt (New url opts)"
    by (simp add: New_def)
  have d: "set post \<subseteq> range WithAPIKey \<union> range WithWalletAuth \<longrightarrow>
        Timeout (httpClient (New url (pre @ WithTimeout d # post))) = d"
    by (simp add: New_def fold_keeps_timeout) (simp add: WithTimeout_def)
  have e: "set post \<subseteq> range WithTimeout \<union> range WithWalletAuth \<longrightarrow>
        apiKey (New url (pre @ WithAPIKey key # post)) = key"
    by (simp add: New_def fold_keeps_apiKey) (simp add: WithAPIKey_def)
  have f: "set post \<subseteq> range WithTimeout \<union> range WithAPIKey \<longrightarrow>
        walletAuth (New url (pre @ WithWalletAuth auth # post)) = auth"
    by (simp add: New_def fold_keeps_walletAuth) (simp add: WithWalletAuth_def)
  from a b c d e f show ?thesis by blast
qed

theorem New_defaults_then_options_in_order_witness:
  "set [WithAPIKey ''k'', WithWalletAuth None] \<subseteq> range WithAPIKey \<union> range WithWalletAuth
   \<and> sint (Timeout (httpClient (New ''http://localhost:8080'' [WithAPIKey ''k'', WithWalletAuth None]))) = 30000000000
   \<and> set [WithAPIKey ''k''] \<subseteq> range WithAPIKey \<union> range WithWalletAuth
   \<and> Timeout (httpClient (New ''http://localhost:8080'' ([WithTimeout 5] @ WithTimeout 7 # [WithAPIKey ''k'']))) = 7
   \<and> set [WithTimeout 5] \<subseteq> range WithTimeout \<union> range WithWalletAuth
   \<and> apiKey (New ''http://localhost:8080'' ([WithAPIKey ''a''] @ WithAPIKey ''b'' # [WithTimeout 5])) = ''b''"
  using New_defaults_then_options_in_order
     [of "[WithAPIKey ''k'', WithWalletAuth None]" "''http://localhost:8080''" _ "[WithAPIKey ''k'']" "[WithTimeout 5]" 7]
    New_defaults_then_options_in_order
     [of _ "''http://localhost:8080''" _ "[WithTimeout 5]" "[WithAPIKey ''a'']" _ "''b''"]
  by simp

subsection \<open>Serialization of the body\<close>

text \<open>
  Claim C7. When the body of a request cannot be serialized (\<^verbatim>\<open>json.Marshal\<close>
  returns an error), \<^verbatim>\<open>doRequest\<close> fails with the marshalling error and the
  log of the transport is as it was: no request is built and none is sent.
\<close>

theorem body_not_serializable_fails_before_network:
  "json_Marshal E b = Inl err \<Longrightarrow>
   doRequest E c ctx method path (Some b) log = (Inl (MarshalError err), log)"
  by (simp add: doRequest_def)

theorem body_not_serializable_fails_before_network_witness:
  "json_Marshal (double marshalValue (Inr \<lparr>StatusCode = 200, RespBody = ''{}''\<rparr>)) ChanValue
     = Inl ''json: unsupported type: chan int''
   \<and> doRequest (double marshalValue (Inr \<lparr>StatusCode = 200, RespBody = ''{}''\<rparr>))
        (New ''http://localhost:8080'' []) () ''POST'' ''/api/projects'' (Some ChanValue) []
     = (Inl (MarshalError ''json: unsupported type: chan int''), [])"
proof -
  have h: "json_Marshal (double marshalValue (Inr \<lparr>StatusCode = 200, RespBody = ''{}''\<rparr>)) ChanValue
     = Inl ''json: unsupported type: chan int''"
    by (simp add: double_def)
  from h body_not_serializable_fails_before_network [OF h] show ?thesis by simp
qed

lemma double_simps:
  "json_Marshal (double marshal reply) = marshal"
  "NewRequestWithContext_err (double marshal reply) ctx method url =
     (if list_ex isCTL url then Some ''net/url: invalid control character in URL'' else None)"
  "Do (double marshal reply) hc req = reply"
  by (simp_all add: double_def)

lemma doRequest_log:
  "snd (doRequest E c ctx method path body log) =
     (case marshalBody E body of
        Inl err \<Rightarrow> log
      | Inr bodyReader \<Rightarrow>
          (case NewRequestWithContext_err E ctx method (baseURL c @ path) of
             Some err \<Rightarrow> log
           | None \<Rightarrow> log @ [prepared c ctx method path bodyReader]))"
  by (simp add: doRequest_parts split: sum.splits option.splits)

subsection \<open>Credentials on the request\<close>

text \<open>
  Claim C8. The request that \<^verbatim>\<open>doRequest\<close> hands to the transport carries the
  header \<^verbatim>\<open>Authorization\<close> with the value \<^verbatim>\<open>Bearer\<close>, a space and the
  configured API key exactly when the key is not empty; with an empty key the request
  has no \<^verbatim>\<open>Authorization\<close> header.
\<close>

theorem bearer_header_iff_static_token:
  "snd (doRequest E c ctx method path body log) = log @ [req] \<Longrightarrow>
   Header_Get req ''Authorization'' = (if apiKey c \<noteq> [] then Some (''Bearer '' @ apiKey c) else None)"
  by (auto simp: doRequest_log prepared_def Header_Get_def Header_Set_def Let_def
      split: sum.splits option.splits)

theorem bearer_header_iff_static_token_witness:
  "snd (doRequest (double marshalMap (Inr \<lparr>StatusCode = 200, RespBody = ''[]''\<rparr>))
          (New ''http://localhost:8080'' [WithAPIKey ''secret'']) () ''GET'' ''/api/projects'' None [])
     = [] @ [prepared (New ''http://localhost:8080'' [WithAPIKey ''secret'']) () ''GET'' ''/api/projects'' None]
   \<and> Header_Get (prepared (New ''http://localhost:8080'' [WithAPIKey ''secret'']) () ''GET'' ''/api/projects'' None)
        ''Authorization'' = Some ''Bearer secret''
   \<and> snd (doRequest (double marshalMap (Inr \<lparr>StatusCode = 200, RespBody = ''[]''\<rparr>))
          (New ''http://localhost:8080'' []) () ''GET'' ''/api/projects'' None [])
     = [] @ [prepared (New ''http://localhost:8080'' []) () ''GET'' ''/api/projects'' None]
   \<and> Header_Get (prepared (New ''http://localhost:8080'' []) () ''GET'' ''/api/projects'' None)
        ''Authorization'' = None"
proof -
  let ?E = "double marshalMap (Inr \<lparr>StatusCode = 200, RespBody = ''[]''\<rparr>)"
  let ?c = "New ''http://localhost:8080'' [WithAPIKey ''secret'']"
  let ?d = "New ''http://localhost:8080'' []"
  have h: "snd (doRequest ?E ?c () ''GET'' ''/api/projects'' None [])
     = [] @ [prepared ?c () ''GET'' ''/api/projects'' None]"
    by (simp add: doRequest_log marshalBody_def double_simps New_def WithAPIKey_def isCTL_def)
  have k: "snd (doRequest ?E ?d () ''GET'' ''/api/projects'' None [])
     = [] @ [prepared ?d () ''GET'' ''/api/projects'' None]"
    by (simp add: doRequest_log marshalBody_def double_simps New_def isCTL_def)
  from h k bearer_header_iff_static_token [OF h] bearer_header_iff_static_token [OF k]
  show ?thesis by (simp add: New_def WithAPIKey_def)
qed

text \<open>
  Claim C1, as the code has it. The claim says that a Client with neither an API key
  nor a wallet fails every request before the network is reached. The code has no such
  check: at a Client made by \<^verbatim>\<open>New\<close> with no option, \<^verbatim>\<open>doRequest\<close> hands
  the request to the transport and returns the transport's response.
\<close>

theorem no_credentials_counterexample:
  "apiKey (New ''http://localhost:8080'' []) = []
   \<and> walletAuth (New ''http://localhost:8080'' []) = None
   \<and> doRequest (double marshalMap (Inr \<lparr>StatusCode = 200, RespBody = ''[]''\<rparr>))
        (New ''http://localhost:8080'' []) () ''GET'' ''/api/projects'' None []
      = (Inr \<lparr>StatusCode = 200, RespBody = ''[]''\<rparr>,
         [\<lparr>Ctx = (), Method = ''GET'', URL = ''http://localhost:8080/api/projects'',
           Header = [(''Content-Type'', ''application/json'')], Body = None\<rparr>])"
  by (simp add: doRequest_def double_simps New_def isCTL_def Header_Set_def)

text \<open>
  Claim C1, amended. For a Client with an empty API key and no wallet, a request whose
  body serializes and whose URL is accepted is handed to the transport exactly once,
  with the \<^verbatim>\<open>Content-Type\<close> header as its only header (no credentials), and
  the result of \<^verbatim>\<open>doRequest\<close> is the transport's: its response, or its error.
\<close>

theorem no_credentials_still_dispatches:
  "apiKey c = [] \<Longrightarrow> walletAuth c = None \<Longrightarrow>
   marshalBody E body = Inr bodyReader \<Longrightarrow>
   NewRequestWithContext_err E ctx method (baseURL c @ path) = None \<Longrightarrow>
   doRequest E c ctx method path body log =
     (case Do E (httpClient c)
             \<lparr>Ctx = ctx, Method = method, URL = baseURL c @ path,
              Header = [(''Content-Type'', ''application/json'')], Body = bodyReader\<rparr> of
        Inl err \<Rightarrow> Inl (DoError err)
      | Inr resp \<Rightarrow> Inr resp,
      log @ [\<lparr>Ctx = ctx, Method = method, URL = baseURL c @ path,
               Header = [(''Content-Type'', ''application/json'')], Body = bodyReader\<rparr>])"
  by (simp add: doRequest_parts prepared_def sent_def Header_Set_def)

theorem no_credentials_still_dispatches_witness:
  "apiKey (New ''http://localhost:8080'' []) = []
   \<and> walletAuth (New ''http://localhost:8080'' []) = None
   \<and> marshalBody (double marshalMap (Inl ''dial tcp: connection refused'')) None = Inr None
   \<and> doRequest (double marshalMap (Inl ''dial tcp: connection refused''))
        (New ''http://localhost:8080'' []) () ''GET'' ''/api/projects'' None []
      = (Inl (DoError ''dial tcp: connection refused''),
         [\<lparr>Ctx = (), Method = ''GET'', URL = ''http://localhost:8080/api/projects'',
           Header = [(''Content-Type'', ''application/json'')], Body = None\<rparr>])"
proof -
  let ?E = "double marshalMap (Inl ''dial tcp: connection refused'')"
  let ?c = "New ''http://localhost:8080'' []"
  have a: "apiKey ?c = []" and w: "walletAuth ?c = None" by (simp_all add: New_def)
  have m: "marshalBody ?E None = Inr None" by (simp add: marshalBody_def)
  have n: "NewRequestWithContext_err ?E () ''GET'' (baseURL ?c @ ''/api/projects'') = None"
    by (simp add: double_simps New_def isCTL_def)
  from a w m no_credentials_still_dispatches [OF a w m n, of "[]"]
  show ?thesis by (simp add: double_simps New_def)
qed

lemma doRequest_outcome:
  "marshalBody E body = Inr bodyReader \<Longrightarrow>
   NewRequestWithContext_err E ctx method (baseURL c @ path) = None \<Longrightarrow>
   doRequest E c ctx method path body log =
     (sent E c (prepared c ctx method path bodyReader), log @ [prepared c ctx method path bodyReader])"
  by (simp add: doRequest_parts)

lemma marshalBody_Some: "json_Marshal E b = Inr j \<Longrightarrow> marshalBody E (Some b) = Inr (Some j)"
  by (simp add: marshalBody_def)

lemma marshalBody_None: "marshalBody E None = Inr None"
  by (simp add: marshalBody_def)

subsection \<open>Responses and their decoding\<close>

text \<open>
  Claim C2, as the code has it. The claim says that a response with a non-success
  status is returned as an error carrying the status and the message, and that its
  body is not decoded. The code never reads the status: at a response with status
  500 whose body is a JSON object, \<^verbatim>\<open>SignInWithEthereum\<close> decodes the body
  and returns the decoded value as its result, after one request to the sign-in
  endpoint.
\<close>

theorem remote_error_counterexample:
  "StatusCode \<lparr>StatusCode = 500, RespBody = ''{}''\<rparr> = 500
   \<and> fst (SignInWithEthereum (double marshalMap (Inr \<lparr>StatusCode = 500, RespBody = ''{}''\<rparr>))
        decodeObject (New ''http://localhost:8080'' []) () ''message'' ''0xsignature'' []) = Inr ''{}''
   \<and> map URL (snd (SignInWithEthereum (double marshalMap (Inr \<lparr>StatusCode = 500, RespBody = ''{}''\<rparr>))
        decodeObject (New ''http://localhost:8080'' []) () ''message'' ''0xsignature'' []))
      = [''http://localhost:8080/api/auth/siwe'']"
  by (simp add: SignInWithEthereum_def doRequest_def double_simps marshalMap_def New_def isCTL_def
      Header_Set_def decodeObject_def)

text \<open>
  Claim C2, amended. For each facade method whose request is handed to the transport
  (the body serializes and the URL is accepted): an error of the transport is
  returned as that error, and no decoding takes place; a response, whatever its
  status code, has its body decoded as the expected shape; a failure to decode is
  returned as the decoder's error, which differs from every transport error; a body
  that decodes is returned as the result.
\<close>

theorem response_decoded_whatever_status:
  "(json_Marshal E [(''message'', message), (''signature'', signature)] = Inr jsiwe \<longrightarrow>
    NewRequestWithContext_err E ctx ''POST'' (baseURL c @ ''/api/auth/siwe'') = None \<longrightarrow>
    fst (SignInWithEthereum E DecodeIdentity c ctx message signature log) =
      (case Do E (httpClient c) (prepared c ctx ''POST'' ''/api/auth/siwe'' (Some jsiwe)) of
         Inl err \<Rightarrow> Inl (DoError err)
       | Inr resp \<Rightarrow> (case DecodeIdentity (RespBody resp) of
                         Inl err \<Rightarrow> Inl (DecodeError err)
                       | Inr identity \<Rightarrow> Inr identity)))
   \<and> (json_Marshal E [(''name'', name)] = Inr jcreate \<longrightarrow>
    NewRequestWithContext_err E ctx ''POST'' (baseURL c @ ''/api/projects'') = None \<longrightarrow>
    fst (Create E DecodeProject c ctx name log) =
      (case Do E (httpClient c) (prepared c ctx ''POST'' ''/api/projects'' (Some jcreate)) of
         Inl err \<Rightarrow> Inl (DoError err)
       | Inr resp \<Rightarrow> (case DecodeProject (RespBody resp) of
                         Inl err \<Rightarrow> Inl (DecodeError err)
                       | Inr project \<Rightarrow> Inr project)))
   \<and> (NewRequestWithContext_err E ctx ''GET'' (baseURL c @ ''/api/projects'') = None \<longrightarrow>
    fst (List E DecodeProjects c ctx log) =
      (case Do E (httpClient c) (prepared c ctx ''GET'' ''/api/projects'' None) of
         Inl err \<Rightarrow> Inl (DoError err)
       | Inr resp \<Rightarrow> (case DecodeProjects (RespBody resp) of
                         Inl err \<Rightarrow> Inl (DecodeError err)
                       | Inr projects \<Rightarrow> Inr projects)))
   \<and> (json_Marshal E [(''description'', description)] = Inr jschema \<longrightarrow>
    NewRequestWithContext_err E ctx ''POST'' (baseURL c @ ''/api/ai/schema'') = None \<longrightarrow>
    fst (GenerateSchema E DecodeSchema c ctx description log) =
      (case Do E (httpClient c) (prepared c ctx ''POST'' ''/api/ai/schema'' (Some jschema)) of
         Inl err \<Rightarrow> Inl (DoError err)
       | Inr resp \<Rightarrow> (case DecodeSchema (RespBody resp) of
                         Inl err \<Rightarrow> Inl (DecodeError err)
                       | Inr schema \<Rightarrow> Inr schema)))
   \<and> (json_Marshal E [(''text'', text)] = Inr jembed \<longrightarrow>
    NewRequestWithContext_err E ctx ''POST'' (baseURL c @ ''/api/ai/embed'') = None \<longrightarrow>
    fst (Embed E DecodeEmbedding c ctx text log) =
      (case Do E (httpClient c) (prepared c ctx ''POST'' ''/api/ai/embed'' (Some jembed)) of
         Inl err \<Rightarrow> Inl (DoError err)
       | Inr resp \<Rightarrow> (case DecodeEmbedding (RespBody resp) of
                         Inl err \<Rightarrow> Inl (DecodeError err)
                       | Inr embedding \<Rightarrow> Inr embedding)))"
proof -
  have 1: "json_Marshal E [(''message'', message), (''signature'', signature)] = Inr jsiwe \<longrightarrow>
    NewRequestWithContext_err E ctx ''POST'' (baseURL c @ ''/api/auth/siwe'') = None \<longrightarrow>
    fst (SignInWithEthereum E DecodeIdentity c ctx message signature log) =
      (case Do E (httpClient c) (prepared c ctx ''POST'' ''/api/auth/siwe'' (Some jsiwe)) of
         Inl err \<Rightarrow> Inl (DoError err)
       | Inr resp \<Rightarrow> (case DecodeIdentity (RespBody resp) of
                         Inl err \<Rightarrow> Inl (DecodeError err)
                       | Inr identity \<Rightarrow> Inr identity))"
    by (simp add: SignInWithEthereum_def doRequest_outcome marshalBody_Some sent_def split: sum.splits)
  have 2: "json_Marshal E [(''name'', name)] = Inr jcreate \<longrightarrow>
    NewRequestWithContext_err E ctx ''POST'' (baseURL c @ ''/api/projects'') = None \<longrightarrow>
    fst (Create E DecodeProject c ctx name log) =
      (case Do E (httpClient c) (prepared c ctx ''POST'' ''/api/projects'' (Some jcreate)) of
         Inl err \<Rightarrow> Inl (DoError err)
       | Inr resp \<Rightarrow> (case DecodeProject (RespBody resp) of
                         Inl err \<Rightarrow> Inl (DecodeError err)
                       | Inr project \<Rightarrow> Inr project))"
    by (simp add: Create_def doRequest_outcome marshalBody_Some sent_def split: sum.splits)
  have 3: "NewRequestWithContext_err E ctx ''GET'' (baseURL c @ ''/api/projects'') = None \<longrightarrow>
    fst (List E DecodeProjects c ctx log) =
      (case Do E (httpClient c) (prepared c ctx ''GET'' ''/api/projects'' None) of
         Inl err \<Rightarrow> Inl (DoError err)
       | Inr resp \<Rightarrow> (case DecodeProjects (RespBody resp) of
                         Inl err \<Rightarrow> Inl (DecodeError err)
                       | Inr projects \<Rightarrow> Inr projects))"
    by (simp add: List_def doRequest_outcome marshalBody_None sent_def split: sum.splits)
  have 4: "json_Marshal E [(''description'', description)] = Inr jschema \<longrightarrow>
    NewRequestWithContext_err E ctx ''POST'' (baseURL c @ ''/api/ai/schema'') = None \<longrightarrow>
    fst (GenerateSchema E DecodeSchema c ctx description log) =
      (case Do E (httpClient c) (prepared c ctx ''POST'' ''/api/ai/schema'' (Some jschema)) of
         Inl err \<Rightarrow> Inl (DoError err)
       | Inr resp \<Rightarrow> (case DecodeSchema (RespBody resp) of
                         Inl err \<Rightarrow> Inl (DecodeError err)
                       | Inr schema \<Rightarrow> Inr schema))"
    by (simp add: GenerateSchema_def doRequest_outcome marshalBody_Some sent_def split: sum.splits)
  have 5: "json_Marshal E [(''text'', text)] = Inr jembed \<longrightarrow>
    NewRequestWithContext_err E ctx ''POST'' (baseURL c @ ''/api/ai/embed'') = None \<longrightarrow>
    fst (Embed E DecodeEmbedding c ctx text log) =
      (case Do E (httpClient c) (prepared c ctx ''POST'' ''/api/ai/embed'' (Some jembed)) of
         Inl err \<Rightarrow> Inl (DoError err)
       | Inr resp \<Rightarrow> (case DecodeEmbedding (RespBody resp) of
                         Inl err \<Rightarrow> Inl (DecodeError err)
                       | Inr embedding \<Rightarrow> Inr embedding))"
    by (simp add: Embed_def doRequest_outcome marshalBody_Some sent_def split: sum.splits)
  from 1 2 3 4 5 show ?thesis by blast
qed

theorem response_decoded_whatever_status_witness:
  "json_Marshal (double marshalMap (Inr \<lparr>StatusCode = 500, RespBody = ''oops''\<rparr>)) [(''name'', ''shop'')]
     = marshalMap [(''name'', ''shop'')]
   \<and> fst (Create (double marshalMap (Inr \<lparr>StatusCode = 500, RespBody = ''oops''\<rparr>))
        decodeObject (New ''http://localhost:8080'' []) () ''shop'' []) = Inl (DecodeError ''invalid character'')
   \<and> fst (List (double marshalMap (Inl ''dial tcp: connection refused''))
        decodeObject (New ''http://localhost:8080'' []) () []) = Inl (DoError ''dial tcp: connection refused'')"
proof -
  let ?E = "double marshalMap (Inr \<lparr>StatusCode = 500, RespBody = ''oops''\<rparr>)"
  let ?F = "double marshalMap (Inl ''dial tcp: connection refused'') :: (unit, StringMap) env"
  let ?c = "New ''http://localhost:8080'' []"
  have m: "json_Marshal ?E [(''name'', ''shop'')] = Inr (''{'' @ fields [(''name'', ''shop'')] @ ''}'')"
    by (simp add: double_simps marshalMap_def)
  have n: "NewRequestWithContext_err ?E () ''POST'' (baseURL ?c @ ''/api/projects'') = None"
    by (simp add: double_simps New_def isCTL_def)
  have n': "NewRequestWithContext_err ?F () ''GET'' (baseURL ?c @ ''/api/projects'') = None"
    by (simp add: double_simps New_def isCTL_def)
  have a: "fst (Create ?E decodeObject ?c () ''shop'' []) = Inl (DecodeError ''invalid character'')"
    using response_decoded_whatever_status
      [where E = ?E and c = ?c and ctx = "()" and name = "''shop''" and DecodeProject = decodeObject
         and log = "[]", THEN conjunct2, THEN conjunct1, rule_format, OF m n]
    by (simp add: double_simps decodeObject_def)
  have b: "fst (List ?F decodeObject ?c () []) = Inl (DoError ''dial tcp: connection refused'')"
    using response_decoded_whatever_status
      [where E = ?F and c = ?c and ctx = "()" and DecodeProjects = decodeObject
         and log = "[]", THEN conjunct2, THEN conjunct2, THEN conjunct1, rule_format, OF n']
    by (simp add: double_simps)
  from m a b show ?thesis by (simp add: marshalMap_def)
qed

lemma prepared_ignores_walletAuth:
  "prepared (c\<lparr>walletAuth := auth\<rparr>) ctx method path bodyReader = prepared c ctx method path bodyReader"
  by (simp add: prepared_def Let_def)

lemma sent_ignores_walletAuth: "sent E (c\<lparr>walletAuth := auth\<rparr>) req = sent E c req"
  by (simp add: sent_def)

lemma doRequest_ignores_walletAuth:
  "doRequest E (c\<lparr>walletAuth := auth\<rparr>) ctx method path body log
     = doRequest E c ctx method path body log"
  by (simp add: doRequest_parts prepared_ignores_walletAuth sent_ignores_walletAuth
      cong: sum.case_cong option.case_cong)

lemma facade_log:
  "snd (case r of
          (Inl err, l) \<Rightarrow> (Inl err, l)
        | (Inr resp, l) \<Rightarrow> (case Decode (RespBody resp) of
                              Inl err \<Rightarrow> (Inl (DecodeError err), l)
                            | Inr v \<Rightarrow> (Inr v, l))) = snd r"
  by (simp split: prod.splits sum.splits)

lemma prepared_headers:
  "prepared c ctx httpMethod path bodyReader =
     \<lparr>Ctx = ctx, Method = httpMethod, URL = baseURL c @ path,
      Header = (if apiKey c \<noteq> []
                then [(''Content-Type'', ''application/json''), (''Authorization'', ''Bearer '' @ apiKey c)]
                else [(''Content-Type'', ''application/json'')]),
      Body = bodyReader\<rparr>"
  by (simp add: prepared_def Header_Set_def)

subsection \<open>The facade methods and their arguments\<close>

text \<open>
  Claim C3, as the code has it. The claim says that \<^verbatim>\<open>Create\<close> rejects an empty
  project name without a network call. The code has no check on the name: with the
  empty name, \<^verbatim>\<open>Create\<close> posts the body with the empty name to the projects
  endpoint and returns what the response decodes to.
\<close>

theorem empty_name_counterexample:
  "map URL (snd (Create (double marshalMap (Inr \<lparr>StatusCode = 201, RespBody = ''{}''\<rparr>))
        decodeObject (New ''http://localhost:8080'' []) () [] []))
     = [''http://localhost:8080/api/projects'']
   \<and> map Body (snd (Create (double marshalMap (Inr \<lparr>StatusCode = 201, RespBody = ''{}''\<rparr>))
        decodeObject (New ''http://localhost:8080'' []) () [] []))
     = [Some (''{'' @ quoted ''name'' @ '':'' @ quoted [] @ ''}'')]
   \<and> fst (Create (double marshalMap (Inr \<lparr>StatusCode = 201, RespBody = ''{}''\<rparr>))
        decodeObject (New ''http://localhost:8080'' []) () [] []) = Inr ''{}''"
  by (simp add: Create_def doRequest_def double_simps marshalMap_def New_def isCTL_def
      Header_Set_def decodeObject_def)

text \<open>
  Claim C3, amended. No facade method validates its arguments: whatever the
  arguments, the empty string too, the method's request is handed to the transport
  once its body serializes and its URL is accepted, for \<^verbatim>\<open>SignInWithEthereum\<close>,
  \<^verbatim>\<open>Create\<close>, \<^verbatim>\<open>GenerateSchema\<close> and \<^verbatim>\<open>Embed\<close>;
  \<^verbatim>\<open>List\<close>, which has no argument, sends its request once the URL is accepted.
  Every facade method returns an error of the dispatcher as it is, with the log the
  dispatcher left.
\<close>

theorem facades_do_not_validate_and_pass_errors_on:
  "(json_Marshal E [(''message'', message), (''signature'', signature)] = Inr jsiwe \<longrightarrow>
    NewRequestWithContext_err E ctx ''POST'' (baseURL c @ ''/api/auth/siwe'') = None \<longrightarrow>
    snd (SignInWithEthereum E DecodeIdentity c ctx message signature log) =
      log @ [prepared c ctx ''POST'' ''/api/auth/siwe'' (Some jsiwe)])
   \<and> (json_Marshal E [(''name'', name)] = Inr j \<longrightarrow>
    NewRequestWithContext_err E ctx ''POST'' (baseURL c @ ''/api/projects'') = None \<longrightarrow>
    snd (Create E DecodeProject c ctx name log) =
      log @ [prepared c ctx ''POST'' ''/api/projects'' (Some j)])
   \<and> (NewRequestWithContext_err E ctx ''GET'' (baseURL c @ ''/api/projects'') = None \<longrightarrow>
    snd (List E DecodeProjects c ctx log) =
      log @ [prepared c ctx ''GET'' ''/api/projects'' None])
   \<and> (json_Marshal E [(''description'', description)] = Inr jschema \<longrightarrow>
    NewRequestWithContext_err E ctx ''POST'' (baseURL c @ ''/api/ai/schema'') = None \<longrightarrow>
    snd (GenerateSchema E DecodeSchema c ctx description log) =
      log @ [prepared c ctx ''POST'' ''/api/ai/schema'' (Some jschema)])
   \<and> (json_Marshal E [(''text'', content)] = Inr jembed \<longrightarrow>
    NewRequestWithContext_err E ctx ''POST'' (baseURL c @ ''/api/ai/embed'') = None \<longrightarrow>
    snd (Embed E DecodeEmbedding c ctx content log) =
      log @ [prepared c ctx ''POST'' ''/api/ai/embed'' (Some jembed)])
   \<and> (doRequest E c ctx ''POST'' ''/api/auth/siwe''
         (Some [(''message'', message), (''signature'', signature)]) log = (Inl err, log') \<longrightarrow>
       SignInWithEthereum E DecodeIdentity c ctx message signature log = (Inl err, log'))
   \<and> (doRequest E c ctx ''POST'' ''/api/projects'' (Some [(''name'', name)]) log = (Inl err, log') \<longrightarrow>
       Create E DecodeProject c ctx name log = (Inl err, log'))
   \<and> (doRequest E c ctx ''GET'' ''/api/projects'' None log = (Inl err, log') \<longrightarrow>
       List E DecodeProjects c ctx log = (Inl err, log'))
   \<and> (doRequest E c ctx ''POST'' ''/api/ai/schema'' (Some [(''description'', description)]) log
         = (Inl err, log') \<longrightarrow>
       GenerateSchema E DecodeSchema c ctx description log = (Inl err, log'))
   \<and> (doRequest E c ctx ''POST'' ''/api/ai/embed'' (Some [(''text'', content)]) log = (Inl err, log') \<longrightarrow>
       Embed E DecodeEmbedding c ctx content log = (Inl err, log'))"
proof -
  have s1: "json_Marshal E [(''message'', message), (''signature'', signature)] = Inr jsiwe \<longrightarrow>
    NewRequestWithContext_err E ctx ''POST'' (baseURL c @ ''/api/auth/siwe'') = None \<longrightarrow>
    snd (SignInWithEthereum E DecodeIdentity c ctx message signature log) =
      log @ [prepared c ctx ''POST'' ''/api/auth/siwe'' (Some jsiwe)]"
    unfolding SignInWithEthereum_def facade_log by (simp add: doRequest_outcome marshalBody_Some)
  have s2: "json_Marshal E [(''name'', name)] = Inr j \<longrightarrow>
    NewRequestWithContext_err E ctx ''POST'' (baseURL c @ ''/api/projects'') = None \<longrightarrow>
    snd (Create E DecodeProject c ctx name log) =
      log @ [prepared c ctx ''POST'' ''/api/projects'' (Some j)]"
    unfolding Create_def facade_log by (simp add: doRequest_outcome marshalBody_Some)
  have s3: "NewRequestWithContext_err E ctx ''GET'' (baseURL c @ ''/api/projects'') = None \<longrightarrow>
    snd (List E DecodeProjects c ctx log) =
      log @ [prepared c ctx ''GET'' ''/api/projects'' None]"
    unfolding List_def facade_log by (simp add: doRequest_outcome marshalBody_None)
  have s4: "json_Marshal E [(''description'', description)] = Inr jschema \<longrightarrow>
    NewRequestWithContext_err E ctx ''POST'' (baseURL c @ ''/api/ai/schema'') = None \<longrightarrow>
    snd (GenerateSchema E DecodeSchema c ctx description log) =
      log @ [prepared c ctx ''POST'' ''/api/ai/schema'' (Some jschema)]"
    unfolding GenerateSchema_def facade_log by (simp add: doRequest_outcome marshalBody_Some)
  have s5: "json_Marshal E [(''text'', content)] = Inr jembed \<longrightarrow>
    NewRequestWithContext_err E ctx ''POST'' (baseURL c @ ''/api/ai/embed'') = None \<longrightarrow>
    snd (Embed E DecodeEmbedding c ctx content log) =
      log @ [prepared c ctx ''POST'' ''/api/ai/embed'' (Some jembed)]"
    unfolding Embed_def facade_log by (simp add: doRequest_outcome marshalBody_Some)
  have b: "doRequest E c ctx ''POST'' ''/api/auth/siwe''
         (Some [(''message'', message), (''signature'', signature)]) log = (Inl err, log') \<longrightarrow>
       SignInWithEthereum E DecodeIdentity c ctx message signature log = (Inl err, log')"
    by (simp add: SignInWithEthereum_def)
  have c: "doRequest E c ctx ''POST'' ''/api/projects'' (Some [(''name'', name)]) log = (Inl err, log') \<longrightarrow>
       Create E DecodeProject c ctx name log = (Inl err, log')"
    by (simp add: Create_def)
  have d: "doRequest E c ctx ''GET'' ''/api/projects'' None log = (Inl err, log') \<longrightarrow>
       List E DecodeProjects c ctx log = (Inl err, log')"
    by (simp add: List_def)
  have e: "doRequest E c ctx ''POST'' ''/api/ai/schema'' (Some [(''description'', description)]) log
         = (Inl err, log') \<longrightarrow>
       GenerateSchema E DecodeSchema c ctx description log = (Inl err, log')"
    by (simp add: GenerateSchema_def)
  have f: "doRequest E c ctx ''POST'' ''/api/ai/embed'' (Some [(''text'', content)]) log = (Inl err, log') \<longrightarrow>
       Embed E DecodeEmbedding c ctx content log = (Inl err, log')"
    by (simp add: Embed_def)
  from s1 s2 s3 s4 s5 b c d e f show ?thesis by blast
qed

theorem facades_do_not_validate_and_pass_errors_on_witness:
  "json_Marshal (double marshalMap (Inr \<lparr>StatusCode = 201, RespBody = ''{}''\<rparr>)) [(''name'', [])]
     = marshalMap [(''name'', [])]
   \<and> length (snd (Create (double marshalMap (Inr \<lparr>StatusCode = 201, RespBody = ''{}''\<rparr>))
        decodeObject (New ''http://localhost:8080'' []) () [] [])) = 1
   \<and> json_Marshal (double marshalMap (Inr \<lparr>StatusCode = 201, RespBody = ''{}''\<rparr>)) [(''text'', [])]
     = marshalMap [(''text'', [])]
   \<and> length (snd (Embed (double marshalMap (Inr \<lparr>StatusCode = 201, RespBody = ''{}''\<rparr>))
        decodeObject (New ''http://localhost:8080'' []) () [] [])) = 1
   \<and> doRequest (double marshalMap (Inl ''dial tcp: connection refused''))
        (New ''http://localhost:8080'' []) () ''GET'' ''/api/projects'' None []
      = (Inl (DoError ''dial tcp: connection refused''),
          [prepared (New ''http://localhost:8080'' []) () ''GET'' ''/api/projects'' None])
   \<and> List (double marshalMap (Inl ''dial tcp: connection refused''))
        decodeObject (New ''http://localhost:8080'' []) () []
      = (Inl (DoError ''dial tcp: connection refused''),
          [prepared (New ''http://localhost:8080'' []) () ''GET'' ''/api/projects'' None])"
proof -
  let ?E = "double marshalMap (Inr \<lparr>StatusCode = 201, RespBody = ''{}''\<rparr>)"
  let ?F = "double marshalMap (Inl ''dial tcp: connection refused'') :: (unit, StringMap) env"
  let ?c = "New ''http://localhost:8080'' []"
  have m: "json_Marshal ?E [(''name'', [])] = Inr (''{'' @ fields [(''name'', [])] @ ''}'')"
    by (simp add: double_simps marshalMap_def)
  have m': "json_Marshal ?E [(''text'', [])] = Inr (''{'' @ fields [(''text'', [])] @ ''}'')"
    by (simp add: double_simps marshalMap_def)
  have n: "NewRequestWithContext_err ?E () ''POST'' (baseURL ?c @ ''/api/projects'') = None"
    by (simp add: double_simps New_def isCTL_def)
  have ne: "NewRequestWithContext_err ?E () ''POST'' (baseURL ?c @ ''/api/ai/embed'') = None"
    by (simp add: double_simps New_def isCTL_def)
  have n': "NewRequestWithContext_err ?F () ''GET'' (baseURL ?c @ ''/api/projects'') = None"
    by (simp add: double_simps New_def isCTL_def)
  have d: "doRequest ?F ?c () ''GET'' ''/api/projects'' None []
      = (Inl (DoError ''dial tcp: connection refused''), [prepared ?c () ''GET'' ''/api/projects'' None])"
    using n' by (simp add: doRequest_outcome marshalBody_None sent_def double_simps)
  have a: "length (snd (Create ?E decodeObject ?c () [] [])) = 1"
    using facades_do_not_validate_and_pass_errors_on
      [where E = ?E and c = ?c and ctx = "()" and name = "[]" and DecodeProject = decodeObject
         and log = "[]", THEN conjunct2, THEN conjunct1, rule_format, OF m n]
    by simp
  have a': "length (snd (Embed ?E decodeObject ?c () [] [])) = 1"
    using facades_do_not_validate_and_pass_errors_on
      [where E = ?E and c = ?c and ctx = "()" and content = "[]" and DecodeEmbedding = decodeObject
         and log = "[]", THEN conjunct2, THEN conjunct2, THEN conjunct2, THEN conjunct2,
         THEN conjunct1, rule_format, OF m' ne]
    by simp
  have b: "List ?F decodeObject ?c () []
      = (Inl (DoError ''dial tcp: connection refused''), [prepared ?c () ''GET'' ''/api/projects'' None])"
    using facades_do_not_validate_and_pass_errors_on
      [where E = ?F and c = ?c and ctx = "()" and DecodeProjects = decodeObject and log = "[]",
         THEN conjunct2, THEN conjunct2, THEN conjunct2, THEN conjunct2, THEN conjunct2,
         THEN conjunct2, THEN conjunct2, THEN conjunct1, rule_format, OF d] .
  from m a m' a' d b show ?thesis by (simp add: marshalMap_def)
qed

subsection \<open>The two credential mechanisms\<close>

text \<open>
  Claim C4, as the code has it. The claim says that a Client holds at most one
  credential strategy and that no request carries both a bearer token and
  wallet-challenge material. A Client made with both options holds the API key and
  the wallet, and its sign-in request carries the bearer token in the
  \<^verbatim>\<open>Authorization\<close> header and the message and signature in its body.
\<close>

theorem both_credentials_counterexample:
  "apiKey (New ''http://localhost:8080'' [WithAPIKey ''secret'', WithWalletAuth (Some signingWallet)]) = ''secret''
   \<and> walletAuth (New ''http://localhost:8080'' [WithAPIKey ''secret'', WithWalletAuth (Some signingWallet)])
       = Some signingWallet
   \<and> Authorizations (snd (SignInWithEthereum (double marshalMap (Inr \<lparr>StatusCode = 200, RespBody = ''{}''\<rparr>))
        decodeObject (New ''http://localhost:8080'' [WithAPIKey ''secret'', WithWalletAuth (Some signingWallet)])
        () ''message'' ''0xsignature'' []))
       = [Some ''Bearer secret'']
   \<and> map Body (snd (SignInWithEthereum (double marshalMap (Inr \<lparr>StatusCode = 200, RespBody = ''{}''\<rparr>))
        decodeObject (New ''http://localhost:8080'' [WithAPIKey ''secret'', WithWalletAuth (Some signingWallet)])
        () ''message'' ''0xsignature'' []))
       = [Some (''{'' @ quoted ''message'' @ '':'' @ quoted ''message'' @ '',''
                 @ quoted ''signature'' @ '':'' @ quoted ''0xsignature'' @ ''}'')]"
  by (simp add: SignInWithEthereum_def doRequest_def double_simps marshalMap_def New_def isCTL_def
      WithAPIKey_def WithWalletAuth_def
      Header_Set_def Header_Get_def Authorizations_def decodeObject_def)

text \<open>
  Claim C4, amended. The two mechanisms are separate fields of the Client and do not
  exclude each other: after \<^verbatim>\<open>WithAPIKey\<close> and \<^verbatim>\<open>WithWalletAuth\<close>, in
  either order, the Client holds both. The dispatcher does not read the wallet:
  \<^verbatim>\<open>doRequest\<close> gives the same result whatever the wallet field holds. The
  headers of the request it hands to the transport, whatever the wallet, are
  \<^verbatim>\<open>Content-Type\<close> and, exactly when the API key is not empty,
  \<^verbatim>\<open>Authorization\<close> with the bearer token: the token is the only credential
  attached. The same holds of the request of \<^verbatim>\<open>SignInWithEthereum\<close>, whose
  body is the serialized message and signature.
\<close>

theorem credentials_are_independent_fields:
  "apiKey (New url [WithAPIKey key, WithWalletAuth auth]) = key
   \<and> walletAuth (New url [WithAPIKey key, WithWalletAuth auth]) = auth
   \<and> apiKey (New url [WithWalletAuth auth, WithAPIKey key]) = key
   \<and> walletAuth (New url [WithWalletAuth auth, WithAPIKey key]) = auth
   \<and> doRequest E (c\<lparr>walletAuth := auth\<rparr>) ctx httpMethod path body log
       = doRequest E c ctx httpMethod path body log
   \<and> (marshalBody E body = Inr bodyReader \<longrightarrow>
      NewRequestWithContext_err E ctx httpMethod (baseURL c @ path) = None \<longrightarrow>
      snd (doRequest E (c\<lparr>walletAuth := auth\<rparr>) ctx httpMethod path body log) =
        log @ [\<lparr>Ctx = ctx, Method = httpMethod, URL = baseURL c @ path,
                 Header = (if apiKey c \<noteq> []
                           then [(''Content-Type'', ''application/json''),
                                 (''Authorization'', ''Bearer '' @ apiKey c)]
                           else [(''Content-Type'', ''application/json'')]),
                 Body = bodyReader\<rparr>])
   \<and> (json_Marshal E' [(''message'', message), (''signature'', signature)] = Inr j \<longrightarrow>
      NewRequestWithContext_err E' ctx ''POST'' (baseURL c @ ''/api/auth/siwe'') = None \<longrightarrow>
      snd (SignInWithEthereum E' Decode (c\<lparr>walletAuth := auth\<rparr>) ctx message signature log) =
        log @ [\<lparr>Ctx = ctx, Method = ''POST'', URL = baseURL c @ ''/api/auth/siwe'',
                 Header = (if apiKey c \<noteq> []
                           then [(''Content-Type'', ''application/json''),
                                 (''Authorization'', ''Bearer '' @ apiKey c)]
                           else [(''Content-Type'', ''application/json'')]),
                 Body = Some j\<rparr>])"
proof -
  have f: "apiKey (New url [WithAPIKey key, WithWalletAuth auth]) = key
   \<and> walletAuth (New url [WithAPIKey key, WithWalletAuth auth]) = auth
   \<and> apiKey (New url [WithWalletAuth auth, WithAPIKey key]) = key
   \<and> walletAuth (New url [WithWalletAuth auth, WithAPIKey key]) = auth"
    by (simp add: New_def WithAPIKey_def WithWalletAuth_def)
  have i: "doRequest E (c\<lparr>walletAuth := auth\<rparr>) ctx httpMethod path body log
       = doRequest E c ctx httpMethod path body log"
    by (rule doRequest_ignores_walletAuth)
  have d: "marshalBody E body = Inr bodyReader \<longrightarrow>
      NewRequestWithContext_err E ctx httpMethod (baseURL c @ path) = None \<longrightarrow>
      snd (doRequest E (c\<lparr>walletAuth := auth\<rparr>) ctx httpMethod path body log) =
        log @ [\<lparr>Ctx = ctx, Method = httpMethod, URL = baseURL c @ path,
                 Header = (if apiKey c \<noteq> []
                           then [(''Content-Type'', ''application/json''),
                                 (''Authorization'', ''Bearer '' @ apiKey c)]
                           else [(''Content-Type'', ''application/json'')]),
                 Body = bodyReader\<rparr>]"
    by (simp add: doRequest_ignores_walletAuth doRequest_outcome prepared_headers)
  have s: "json_Marshal E' [(''message'', message), (''signature'', signature)] = Inr j \<longrightarrow>
      NewRequestWithContext_err E' ctx ''POST'' (baseURL c @ ''/api/auth/siwe'') = None \<longrightarrow>
      snd (SignInWithEthereum E' Decode (c\<lparr>walletAuth := auth\<rparr>) ctx message signature log) =
        log @ [\<lparr>Ctx = ctx, Method = ''POST'', URL = baseURL c @ ''/api/auth/siwe'',
                 Header = (if apiKey c \<noteq> []
                           then [(''Content-Type'', ''application/json''),
                                 (''Authorization'', ''Bearer '' @ apiKey c)]
                           else [(''Content-Type'', ''application/json'')]),
                 Body = Some j\<rparr>]"
    unfolding SignInWithEthereum_def facade_log
    by (simp add: doRequest_ignores_walletAuth doRequest_outcome marshalBody_Some prepared_headers)
  from f i d s show ?thesis by blast
qed

theorem credentials_are_independent_fields_witness:
  "apiKey (New ''http://localhost:8080'' [WithAPIKey ''secret'', WithWalletAuth (Some signingWallet)]) = ''secret''
   \<and> walletAuth (New ''http://localhost:8080'' [WithAPIKey ''secret'', WithWalletAuth (Some signingWallet)])
       = Some signingWallet
   \<and> marshalBody (double marshalMap (Inr \<lparr>StatusCode = 200, RespBody = ''[]''\<rparr>)) None = Inr None
   \<and> snd (doRequest (double marshalMap (Inr \<lparr>StatusCode = 200, RespBody = ''[]''\<rparr>))
        ((New ''http://localhost:8080'' [WithAPIKey ''secret''])\<lparr>walletAuth := Some signingWallet\<rparr>)
        () ''GET'' ''/api/projects'' None [])
      = [\<lparr>Ctx = (), Method = ''GET'', URL = ''http://localhost:8080/api/projects'',
           Header = [(''Content-Type'', ''application/json''), (''Authorization'', ''Bearer secret'')],
           Body = None\<rparr>]
   \<and> json_Marshal (double marshalMap (Inr \<lparr>StatusCode = 200, RespBody = ''{}''\<rparr>))
        [(''message'', ''message''), (''signature'', ''0xsignature'')]
      = marshalMap [(''message'', ''message''), (''signature'', ''0xsignature'')]
   \<and> Authorizations (snd (SignInWithEthereum (double marshalMap (Inr \<lparr>StatusCode = 200, RespBody = ''{}''\<rparr>))
        decodeObject ((New ''http://localhost:8080'' [])\<lparr>walletAuth := Some signingWallet\<rparr>)
        () ''message'' ''0xsignature'' []))
      = [None]"
proof -
  let ?E = "double marshalMap (Inr \<lparr>StatusCode = 200, RespBody = ''[]''\<rparr>)"
  let ?S = "double marshalMap (Inr \<lparr>StatusCode = 200, RespBody = ''{}''\<rparr>)"
  let ?c = "New ''http://localhost:8080'' [WithAPIKey ''secret'']"
  let ?d = "New ''http://localhost:8080'' []"
  let ?m = "[(''message'', ''message''), (''signature'', ''0xsignature'')]"
  have m: "marshalBody ?E None = Inr None" by (simp add: marshalBody_def)
  have n: "NewRequestWithContext_err ?E () ''GET'' (baseURL ?c @ ''/api/projects'') = None"
    by (simp add: double_simps New_def WithAPIKey_def isCTL_def)
  have j: "json_Marshal ?S ?m = Inr (''{'' @ fields ?m @ ''}'')"
    by (simp add: double_simps marshalMap_def)
  have n': "NewRequestWithContext_err ?S () ''POST'' (baseURL ?d @ ''/api/auth/siwe'') = None"
    by (simp add: double_simps New_def isCTL_def)
  note T = credentials_are_independent_fields
     [where url = "''http://localhost:8080''" and key = "''secret''" and auth = "Some signingWallet"
        and ctx = "()" and log = "[]"]
  have a: "apiKey (New ''http://localhost:8080'' [WithAPIKey ''secret'', WithWalletAuth (Some signingWallet)]) = ''secret''"
    using T [THEN conjunct1] .
  have b: "walletAuth (New ''http://localhost:8080'' [WithAPIKey ''secret'', WithWalletAuth (Some signingWallet)])
       = Some signingWallet"
    using T [THEN conjunct2, THEN conjunct1] .
  have r: "snd (doRequest ?E (?c\<lparr>walletAuth := Some signingWallet\<rparr>) () ''GET'' ''/api/projects'' None [])
      = [\<lparr>Ctx = (), Method = ''GET'', URL = ''http://localhost:8080/api/projects'',
           Header = [(''Content-Type'', ''application/json''), (''Authorization'', ''Bearer secret'')],
           Body = None\<rparr>]"
    using T [where E = ?E and c = ?c and httpMethod = "''GET''" and path = "''/api/projects''"
               and body = None,
             THEN conjunct2, THEN conjunct2, THEN conjunct2, THEN conjunct2, THEN conjunct2,
             THEN conjunct1, rule_format, OF m n]
    by (simp add: New_def WithAPIKey_def)
  have s: "Authorizations (snd (SignInWithEthereum ?S decodeObject (?d\<lparr>walletAuth := Some signingWallet\<rparr>)
        () ''message'' ''0xsignature'' [])) = [None]"
    using T [where E' = ?S and c = ?d and Decode = decodeObject and message = "''message''"
               and signature = "''0xsignature''",
             THEN conjunct2, THEN conjunct2, THEN conjunct2, THEN conjunct2, THEN conjunct2,
             THEN conjunct2, rule_format, OF j n']
    by (simp add: New_def Authorizations_def Header_Get_def)
  from a b m r j s show ?thesis by (simp add: marshalMap_def)
qed

subsection \<open>The wallet sign-in\<close>

text \<open>
  Claim C5, as the code has it. The claim says that the sign-in invokes the
  configured signing capability and fails when the capability returns an error. At a
  Client whose signing capability fails on every message, \<^verbatim>\<open>SignInWithEthereum\<close>
  sends the message and the signature it was called with and returns the decoded
  response as its result.
\<close>

theorem signing_capability_counterexample:
  "SignMessage refusingWallet ''message'' = Inl ''user rejected the request''
   \<and> walletAuth (New ''http://localhost:8080'' [WithWalletAuth (Some refusingWallet)]) = Some refusingWallet
   \<and> SignInWithEthereum (double marshalMap (Inr \<lparr>StatusCode = 200, RespBody = ''{}''\<rparr>))
        decodeObject (New ''http://localhost:8080'' [WithWalletAuth (Some refusingWallet)])
        () ''message'' ''0xsignature'' [] =
      (Inr ''{}'',
       [prepared (New ''http://localhost:8080'' [WithWalletAuth (Some refusingWallet)]) ()
          ''POST'' ''/api/auth/siwe''
          (Some (''{'' @ quoted ''message'' @ '':'' @ quoted ''message'' @ '',''
                 @ quoted ''signature'' @ '':'' @ quoted ''0xsignature'' @ ''}''))])"
  by (simp add: SignInWithEthereum_def doRequest_parts marshalBody_def sent_def double_simps marshalMap_def
      New_def isCTL_def WithWalletAuth_def refusingWallet_def decodeObject_def)

text \<open>
  Claim C5, amended. \<^verbatim>\<open>SignInWithEthereum\<close> does not use the signing capability:
  its result and the requests it sends are the same whatever the wallet field of the
  Client holds. The message and the signature are its caller's arguments, and the
  request it sends, once they serialize and the URL is accepted, is the one prepared
  from their serialization.
\<close>

theorem sign_in_ignores_signing_capability:
  "SignInWithEthereum E Decode (c\<lparr>walletAuth := auth\<rparr>) ctx message signature log
     = SignInWithEthereum E Decode c ctx message signature log
   \<and> (json_Marshal E [(''message'', message), (''signature'', signature)] = Inr j \<longrightarrow>
      NewRequestWithContext_err E ctx ''POST'' (baseURL c @ ''/api/auth/siwe'') = None \<longrightarrow>
      snd (SignInWithEthereum E Decode c ctx message signature log)
        = log @ [prepared c ctx ''POST'' ''/api/auth/siwe'' (Some j)])"
  by (simp add: SignInWithEthereum_def doRequest_ignores_walletAuth doRequest_outcome marshalBody_Some
      split: sum.splits)

theorem sign_in_ignores_signing_capability_witness:
  "json_Marshal (double marshalMap (Inr \<lparr>StatusCode = 200, RespBody = ''{}''\<rparr>))
      [(''message'', ''message''), (''signature'', ''0xsignature'')]
     = marshalMap [(''message'', ''message''), (''signature'', ''0xsignature'')]
   \<and> SignInWithEthereum (double marshalMap (Inr \<lparr>StatusCode = 200, RespBody = ''{}''\<rparr>)) decodeObject
        ((New ''http://localhost:8080'' [])\<lparr>walletAuth := Some refusingWallet\<rparr>) () ''message'' ''0xsignature'' []
      = SignInWithEthereum (double marshalMap (Inr \<lparr>StatusCode = 200, RespBody = ''{}''\<rparr>)) decodeObject
        (New ''http://localhost:8080'' []) () ''message'' ''0xsignature'' []
   \<and> length (snd (SignInWithEthereum (double marshalMap (Inr \<lparr>StatusCode = 200, RespBody = ''{}''\<rparr>))
        decodeObject (New ''http://localhost:8080'' []) () ''message'' ''0xsignature'' [])) = 1"
proof -
  let ?E = "double marshalMap (Inr \<lparr>StatusCode = 200, RespBody = ''{}''\<rparr>)"
  let ?c = "New ''http://localhost:8080'' []"
  let ?m = "[(''message'', ''message''), (''signature'', ''0xsignature'')]"
  have m: "json_Marshal ?E ?m = Inr (''{'' @ fields ?m @ ''}'')"
    by (simp add: double_simps marshalMap_def)
  have n: "NewRequestWithContext_err ?E () ''POST'' (baseURL ?c @ ''/api/auth/siwe'') = None"
    by (simp add: double_simps New_def isCTL_def)
  note T = sign_in_ignores_signing_capability
      [where E = ?E and c = ?c and ctx = "()" and message = "''message''" and signature = "''0xsignature''"
         and Decode = decodeObject and log = "[]" and auth = "Some refusingWallet"]
  have a: "length (snd (SignInWithEthereum ?E decodeObject ?c () ''message'' ''0xsignature'' [])) = 1"
    using T [THEN conjunct2, rule_format, OF m n] by simp
  from m a T [THEN conjunct1] show ?thesis by (simp add: marshalMap_def)
qed

subsection \<open>Network attempts\<close>

text \<open>
  Claim C9, as the code has it. The claim says that every call of the dispatcher
  issues exactly one network attempt. A call whose request cannot be constructed
  issues none: with a base URL that ends in a line feed, \<^verbatim>\<open>List\<close> fails with
  the error of the request's construction and the transport's log stays empty.
\<close>

theorem no_attempt_counterexample:
  "List (double marshalMap (Inr \<lparr>StatusCode = 200, RespBody = ''[]''\<rparr>)) decodeObject
     (New (''http://localhost:8080'' @ [CHR 0x0A]) []) () []
   = (Inl (CreateRequestError ''net/url: invalid control character in URL''), [])"
  by (simp add: List_def doRequest_def double_simps New_def isCTL_def)

text \<open>
  Claim C9, amended. A call of \<^verbatim>\<open>doRequest\<close> whose body serializes and whose
  request is constructed hands exactly one request to the transport; a call that
  fails at either step hands it none; so no call makes more than one attempt. Each
  facade method hands the transport exactly the requests of its one call of
  \<^verbatim>\<open>doRequest\<close>, so none makes more than one round trip.
\<close>

theorem at_most_one_attempt_per_call:
  "(marshalBody E body = Inr bodyReader \<longrightarrow>
    NewRequestWithContext_err E ctx httpMethod (baseURL c @ path) = None \<longrightarrow>
    snd (doRequest E c ctx httpMethod path body log) = log @ [prepared c ctx httpMethod path bodyReader])
   \<and> (isl (marshalBody E body) \<or> NewRequestWithContext_err E ctx httpMethod (baseURL c @ path) \<noteq> None \<longrightarrow>
    snd (doRequest E c ctx httpMethod path body log) = log)
   \<and> length (snd (doRequest E c ctx httpMethod path body log)) \<le> length log + 1
   \<and> snd (SignInWithEthereum E DecodeIdentity c ctx message signature log) =
       snd (doRequest E c ctx ''POST'' ''/api/auth/siwe''
              (Some [(''message'', message), (''signature'', signature)]) log)
   \<and> snd (Create E DecodeProject c ctx name log) =
       snd (doRequest E c ctx ''POST'' ''/api/projects'' (Some [(''name'', name)]) log)
   \<and> snd (List E DecodeProjects c ctx log) =
       snd (doRequest E c ctx ''GET'' ''/api/projects'' None log)
   \<and> snd (GenerateSchema E DecodeSchema c ctx description log) =
       snd (doRequest E c ctx ''POST'' ''/api/ai/schema'' (Some [(''description'', description)]) log)
   \<and> snd (Embed E DecodeEmbedding c ctx text log) =
       snd (doRequest E c ctx ''POST'' ''/api/ai/embed'' (Some [(''text'', text)]) log)"
proof -
  have a: "marshalBody E body = Inr bodyReader \<longrightarrow>
    NewRequestWithContext_err E ctx httpMethod (baseURL c @ path) = None \<longrightarrow>
    snd (doRequest E c ctx httpMethod path body log) = log @ [prepared c ctx httpMethod path bodyReader]"
    by (simp add: doRequest_log)
  have b: "isl (marshalBody E body) \<or> NewRequestWithContext_err E ctx httpMethod (baseURL c @ path) \<noteq> None \<longrightarrow>
    snd (doRequest E c ctx httpMethod path body log) = log"
    by (auto simp: doRequest_log split: sum.splits option.splits)
  have c: "length (snd (doRequest E c ctx httpMethod path body log)) \<le> length log + 1"
    by (simp add: doRequest_log split: sum.splits option.splits)
  have f1: "snd (SignInWithEthereum E DecodeIdentity c ctx message signature log) =
       snd (doRequest E c ctx ''POST'' ''/api/auth/siwe''
              (Some [(''message'', message), (''signature'', signature)]) log)"
    by (simp add: SignInWithEthereum_def split: prod.splits sum.splits)
  have f2: "snd (Create E DecodeProject c ctx name log) =
       snd (doRequest E c ctx ''POST'' ''/api/projects'' (Some [(''name'', name)]) log)"
    by (simp add: Create_def split: prod.splits sum.splits)
  have f3: "snd (List E DecodeProjects c ctx log) =
       snd (doRequest E c ctx ''GET'' ''/api/projects'' None log)"
    by (simp add: List_def split: prod.splits sum.splits)
  have f4: "snd (GenerateSchema E DecodeSchema c ctx description log) =
       snd (doRequest E c ctx ''POST'' ''/api/ai/schema'' (Some [(''description'', description)]) log)"
    by (simp add: GenerateSchema_def split: prod.splits sum.splits)
  have f5: "snd (Embed E DecodeEmbedding c ctx text log) =
       snd (doRequest E c ctx ''POST'' ''/api/ai/embed'' (Some [(''text'', text)]) log)"
    by (simp add: Embed_def split: prod.splits sum.splits)
  from a b c f1 f2 f3 f4 f5 show ?thesis by blast
qed

theorem at_most_one_attempt_per_call_witness:
  "marshalBody (double marshalMap (Inr \<lparr>StatusCode = 200, RespBody = ''[]''\<rparr>)) None = Inr None
   \<and> snd (doRequest (double marshalMap (Inr \<lparr>StatusCode = 200, RespBody = ''[]''\<rparr>))
        (New ''http://localhost:8080'' []) () ''GET'' ''/api/projects'' None [])
      = [prepared (New ''http://localhost:8080'' []) () ''GET'' ''/api/projects'' None]
   \<and> length (snd (List (double marshalMap (Inr \<lparr>StatusCode = 200, RespBody = ''[]''\<rparr>)) decodeObject
        (New ''http://localhost:8080'' []) () [])) = 1
   \<and> NewRequestWithContext_err (double marshalMap (Inr \<lparr>StatusCode = 200, RespBody = ''[]''\<rparr>)) ()
        ''GET'' (baseURL (New (''http://localhost:8080'' @ [CHR 0x0A]) []) @ ''/api/projects'')
      = Some ''net/url: invalid control character in URL''
   \<and> snd (doRequest (double marshalMap (Inr \<lparr>StatusCode = 200, RespBody = ''[]''\<rparr>))
        (New (''http://localhost:8080'' @ [CHR 0x0A]) []) () ''GET'' ''/api/projects'' None []) = []"
proof -
  let ?E = "double marshalMap (Inr \<lparr>StatusCode = 200, RespBody = ''[]''\<rparr>)"
  let ?c = "New ''http://localhost:8080'' []"
  let ?d = "New (''http://localhost:8080'' @ [CHR 0x0A]) []"
  have m: "marshalBody ?E None = Inr None" by (simp add: marshalBody_def)
  have n: "NewRequestWithContext_err ?E () ''GET'' (baseURL ?c @ ''/api/projects'') = None"
    by (simp add: double_simps New_def isCTL_def)
  have n': "NewRequestWithContext_err ?E () ''GET'' (baseURL ?d @ ''/api/projects'')
      = Some ''net/url: invalid control character in URL''"
    by (simp add: double_simps New_def isCTL_def)
  then have n'': "isl (marshalBody ?E None)
      \<or> NewRequestWithContext_err ?E () ''GET'' (baseURL ?d @ ''/api/projects'') \<noteq> None"
    by simp
  note T = at_most_one_attempt_per_call [where E = ?E and ctx = "()" and httpMethod = "''GET''"
      and path = "''/api/projects''" and body = None and log = "[]" and DecodeProjects = decodeObject]
  have a: "snd (doRequest ?E ?c () ''GET'' ''/api/projects'' None [])
      = [prepared ?c () ''GET'' ''/api/projects'' None]"
    using T [where c = ?c, THEN conjunct1, rule_format, OF m n] by simp
  have b: "snd (doRequest ?E ?d () ''GET'' ''/api/projects'' None []) = []"
    using T [where c = ?d, THEN conjunct2, THEN conjunct1, rule_format, OF n''] .
  have l: "length (snd (List ?E decodeObject ?c () [])) = 1"
    using a T [where c = ?c, THEN conjunct2, THEN conjunct2, THEN conjunct2, THEN conjunct2,
                 THEN conjunct2, THEN conjunct1]
    by simp
  from m a l n' b show ?thesis by simp
qed

section \<open>Properties of the content-addressing model\<close>

lemma digest_of_two_files:
  "digest standInHash ''empty'' [(''style.css'', ''body{}''), (''index.html'', ''hi'')]
   = ''#style.cssbody{}#index.htmlhi#''"
  by (simp add: digest_def canonical_def leafDigest_def standInHash_def)

text \<open>
  Claim C6. For every artifact set, verifying the set against the digest computed from
  it succeeds, and verifying it against any other digest is reported as
  \<open>IntegrityMismatch\<close>: a mismatch is never accepted. This holds for every hash
  function and every empty-root constant.
\<close>

theorem verify_accepts_own_digest:
  "verify H emptyRoot (digest H emptyRoot A) A = Inr ()
   \<and> (claimed \<noteq> digest H emptyRoot A \<longrightarrow> verify H emptyRoot claimed A = Inl IntegrityMismatch)"
  by (simp add: verify_def)

theorem verify_accepts_own_digest_witness:
  "verify standInHash ''empty''
      (digest standInHash ''empty'' [(''style.css'', ''body{}''), (''index.html'', ''hi'')])
      [(''style.css'', ''body{}''), (''index.html'', ''hi'')] = Inr ()
   \<and> ''tampered'' \<noteq> digest standInHash ''empty'' [(''style.css'', ''body{}''), (''index.html'', ''hi'')]
   \<and> verify standInHash ''empty'' ''tampered'' [(''style.css'', ''body{}''), (''index.html'', ''hi'')]
       = Inl IntegrityMismatch"
proof -
  let ?A = "[(''style.css'', ''body{}''), (''index.html'', ''hi'')]"
  note T = verify_accepts_own_digest [of standInHash "''empty''" ?A "''tampered''"]
  have d: "''tampered'' \<noteq> digest standInHash ''empty'' ?A"
    by (simp add: digest_of_two_files)
  from T [THEN conjunct1] d T [THEN conjunct2, rule_format, OF d] show ?thesis by simp
qed

end
